theory Spec2Isabelle
  imports Main "HOL-Library.Sublist" "HOL-Library.AList"
begin

section \<open>Values, thrown errors and strings\<close>

text \<open>
  Server configurations arrive as parsed JSON (\<open>Record<string, any>\<close>). A property read
  \<open>obj.key\<close> yields \<open>undefined\<close> when the key is absent, so a read is an
  \<open>option\<close>: \<open>None\<close> is \<open>undefined\<close>. Objects keep their entries as an
  association list. Plain objects are looked up by their own keys only: names inherited
  from \<open>Object.prototype\<close> (\<open>constructor\<close>, \<open>toString\<close>, ...) are outside this
  model when used as server names.
\<close>

datatype json =
    JNull
  | JBool bool
  | JNum int
  | JStr string
  | JArr "json list"
  | JObj "(string \<times> json) list"

type_synonym jsval = "json option"

text \<open>JavaScript truthiness, as used by \<open>!v\<close>, \<open>a || b\<close> and \<open>if (v)\<close>.\<close>

fun truthy :: "jsval \<Rightarrow> bool" where
  "truthy None = False"
| "truthy (Some JNull) = False"
| "truthy (Some (JBool b)) = b"
| "truthy (Some (JNum n)) = (n \<noteq> 0)"
| "truthy (Some (JStr s)) = (s \<noteq> [])"
| "truthy (Some (JArr xs)) = True"
| "truthy (Some (JObj kvs)) = True"

definition js_or :: "jsval \<Rightarrow> jsval \<Rightarrow> jsval" where
  "js_or a b = (if truthy a then a else b)"

text \<open>\<open>obj.key\<close> and \<open>'key' in obj\<close> on a JSON object.\<close>

definition get_prop :: "(string \<times> json) list \<Rightarrow> string \<Rightarrow> jsval" where
  "get_prop kvs k = map_of kvs k"

definition has_key :: "string \<Rightarrow> (string \<times> json) list \<Rightarrow> bool" where
  "has_key k kvs = (map_of kvs k \<noteq> None)"

text \<open>
  A thrown value: an \<open>Error\<close> instance with its \<open>name\<close> and \<open>message\<close>, the SDK's
  \<open>StreamableHTTPError\<close> (an \<open>Error\<close> subclass carrying an HTTP status \<open>code\<close>; its
  \<open>name\<close> stays \<open>Error\<close>), or any other thrown value, kept by its \<open>String(v)\<close> form.
\<close>

datatype thrown =
    JsError string string
  | StreamableHTTPError nat string
  | Thrown string

abbreviation Error :: "string \<Rightarrow> thrown" where
  "Error msg \<equiv> JsError ''Error'' msg"

abbreviation TypeError :: "string \<Rightarrow> thrown" where
  "TypeError msg \<equiv> JsError ''TypeError'' msg"

text \<open>\<open>Error.prototype.toString\<close>: the name, the message, or \<open>name: message\<close>.\<close>

definition error_toString :: "string \<Rightarrow> string \<Rightarrow> string" where
  "error_toString nm msg =
     (if nm = [] then msg else if msg = [] then nm else nm @ '': '' @ msg)"

fun thrown_toString :: "thrown \<Rightarrow> string" where
  "thrown_toString (JsError nm msg) = error_toString nm msg"
| "thrown_toString (StreamableHTTPError code msg) = error_toString ''Error'' msg"
| "thrown_toString (Thrown s) = s"

text \<open>\<open>e.message\<close> inside a template literal; \<open>undefined\<close> for a value that is no Error.\<close>

fun thrown_message :: "thrown \<Rightarrow> string" where
  "thrown_message (JsError nm msg) = msg"
| "thrown_message (StreamableHTTPError code msg) = msg"
| "thrown_message (Thrown s) = ''undefined''"

text \<open>Decimal rendering of a count or status code in a template literal.\<close>

definition digit_char :: "nat \<Rightarrow> char" where
  "digit_char d =
     (if d = 0 then CHR ''0'' else if d = 1 then CHR ''1'' else if d = 2 then CHR ''2''
      else if d = 3 then CHR ''3'' else if d = 4 then CHR ''4'' else if d = 5 then CHR ''5''
      else if d = 6 then CHR ''6'' else if d = 7 then CHR ''7'' else if d = 8 then CHR ''8''
      else CHR ''9'')"

fun string_of_nat :: "nat \<Rightarrow> string" where
  "string_of_nat n =
     (if n < 10 then [digit_char n] else string_of_nat (n div 10) @ [digit_char (n mod 10)])"

declare string_of_nat.simps [simp del]

text \<open>A name between single quotes, as the templates \<open>'${name}'\<close> print it.\<close>

definition quoted :: "string \<Rightarrow> string" where
  "quoted s = [CHR 0x27] @ s @ [CHR 0x27]"

text \<open>\<open>s.includes(p)\<close> and \<open>xs.join(sep)\<close>.\<close>

fun str_includes :: "string \<Rightarrow> string \<Rightarrow> bool" where
  "str_includes [] p = (p = [])"
| "str_includes (c # cs) p = (prefix p (c # cs) \<or> str_includes cs p)"

fun join :: "string \<Rightarrow> string list \<Rightarrow> string" where
  "join sep [] = []"
| "join sep [x] = x"
| "join sep (x # y # ys) = x @ sep @ join sep (y # ys)"

section \<open>Connector construction from a server configuration (config.ts)\<close>

text \<open>
  A connector is recorded by the arguments its constructor received.
  \<open>StdioConnector\<close> and \<open>WebSocketConnector\<close> store their arguments unchecked.
  \<open>HttpConnector\<close>'s constructor calls \<open>baseUrl.replace(/\/$/, '')\<close>, which exists only on
  a string: any other \<open>url\<close> value raises a \<open>TypeError\<close>, also when a \<open>ws_url\<close> key is
  present.
\<close>

datatype connector =
    StdioConnector jsval jsval jsval
  | HttpConnector string jsval jsval jsval
  | WebSocketConnector jsval jsval jsval

fun is_stdio :: "connector \<Rightarrow> bool" where
  "is_stdio (StdioConnector c a e) = True"
| "is_stdio _ = False"

fun is_http :: "connector \<Rightarrow> bool" where
  "is_http (HttpConnector u h t p) = True"
| "is_http _ = False"

fun is_websocket :: "connector \<Rightarrow> bool" where
  "is_websocket (WebSocketConnector u h t) = True"
| "is_websocket _ = False"

text \<open>\<open>baseUrl.replace(/\/$/, '')\<close>: drop one trailing slash.\<close>

definition strip_trailing_slash :: "string \<Rightarrow> string" where
  "strip_trailing_slash s = (if s \<noteq> [] \<and> last s = CHR ''/'' then butlast s else s)"

definition new_HttpConnector :: "jsval \<Rightarrow> jsval \<Rightarrow> jsval \<Rightarrow> jsval \<Rightarrow> thrown + connector" where
  "new_HttpConnector url headers authToken preferSse =
     (case url of
        Some (JStr s) \<Rightarrow> Inr (HttpConnector (strip_trailing_slash s) headers authToken preferSse)
      | Some JNull \<Rightarrow> Inl (TypeError ''Cannot read properties of null (reading 'replace')'')
      | None \<Rightarrow> Inl (TypeError ''Cannot read properties of undefined (reading 'replace')'')
      | _ \<Rightarrow> Inl (TypeError ''baseUrl.replace is not a function''))"

text \<open>
  \<open>createConnectorFromConfig\<close>. The \<open>in\<close> operator raises a \<open>TypeError\<close> on a value
  that is not an object; an array is an object without any of the tested keys.
\<close>

definition createConnectorFromObject :: "(string \<times> json) list \<Rightarrow> thrown + connector" where
  "createConnectorFromObject serverConfig =
     (if has_key ''command'' serverConfig \<and> has_key ''args'' serverConfig then
        Inr (StdioConnector (get_prop serverConfig ''command'') (get_prop serverConfig ''args'')
               (get_prop serverConfig ''env''))
      else if has_key ''url'' serverConfig then
        (let transport = js_or (get_prop serverConfig ''transport'') (Some (JStr ''http''))
         in new_HttpConnector (get_prop serverConfig ''url'') (get_prop serverConfig ''headers'')
              (js_or (get_prop serverConfig ''auth_token'') (get_prop serverConfig ''authToken''))
              (js_or (get_prop serverConfig ''preferSse'') (Some (JBool (transport = Some (JStr ''sse''))))))
      else if has_key ''ws_url'' serverConfig then
        Inr (WebSocketConnector (get_prop serverConfig ''ws_url'') (get_prop serverConfig ''headers'')
               (get_prop serverConfig ''auth_token''))
      else Inl (Error ''Cannot determine connector type from config''))"

fun createConnectorFromConfig :: "json \<Rightarrow> thrown + connector" where
  "createConnectorFromConfig (JObj serverConfig) = createConnectorFromObject serverConfig"
| "createConnectorFromConfig (JArr xs) = Inl (Error ''Cannot determine connector type from config'')"
| "createConnectorFromConfig v =
     Inl (TypeError ''Cannot use 'in' operator to search for 'command' in a non-object'')"

section \<open>The client registry (client.ts)\<close>

text \<open>
  What the remote servers and the tool adapter answer is outside the program. The
  session's initialization and the tool fetch are given by their settled outcome, \<open>None\<close>
  or \<open>Inr\<close> when the promise resolves and the thrown value when it rejects. The session's
  disconnect is given by a \<open>settlement\<close>: its promise resolves, rejects with a thrown
  value, or stays pending for ever, as the WebSocket connector's disconnect does on an
  open socket (see \<open>ws_disconnect\<close> below).
\<close>

datatype settlement = Resolves | Throws thrown | Pending

datatype tool =
    AddMCPServerFromConfigTool
  | ListMCPServersTool
  | ConnectMCPServerTool
  | AcquireActiveMCPServerTool
  | ReleaseMCPServerConnectionTool
  | ServerTool string

record world =
  initialize_outcome :: "connector \<Rightarrow> thrown option"
  disconnect_outcome :: "connector \<Rightarrow> settlement"
  createToolsFromConnectors :: "connector \<Rightarrow> thrown + tool list"

datatype session = MCPSession connector

fun session_connector :: "session \<Rightarrow> connector" where
  "session_connector (MCPSession c) = c"

datatype level = Warn | Err

type_synonym log = "(level \<times> string) list"

text \<open>
  \<open>MCPClient\<close>: \<open>config.mcpServers\<close> (possibly undefined), the session records and the
  active-session name list. Objects are association lists in insertion order, which is
  the order of \<open>Object.keys\<close> for names that are not integer-like. The warn- and
  error-level lines sent to the logger are kept in \<open>client_log\<close>; debug and info lines
  are not recorded.
\<close>

record mcp_client =
  mcpServers :: "(string \<times> json) list option"
  sessions :: "(string \<times> session) list"
  activeSessions :: "string list"
  client_log :: log

definition servers_of :: "mcp_client \<Rightarrow> (string \<times> json) list" where
  "servers_of c = (case mcpServers c of None \<Rightarrow> [] | Some s \<Rightarrow> s)"

definition addServer :: "mcp_client \<Rightarrow> string \<Rightarrow> json \<Rightarrow> mcp_client" where
  "addServer c name serverConfig =
     c\<lparr>mcpServers := Some (AList.update name serverConfig (servers_of c))\<rparr>"

definition removeServer :: "mcp_client \<Rightarrow> string \<Rightarrow> mcp_client" where
  "removeServer c name =
     (if truthy (map_of (servers_of c) name) then
        c\<lparr>mcpServers := Some (AList.delete name (servers_of c)),
          activeSessions := filter (\<lambda>n. n \<noteq> name) (activeSessions c)\<rparr>
      else c)"

definition getServerNames :: "mcp_client \<Rightarrow> string list" where
  "getServerNames c = map fst (servers_of c)"

definition getSession :: "mcp_client \<Rightarrow> string \<Rightarrow> session option" where
  "getSession c serverName = map_of (sessions c) serverName"

definition server_not_found :: "string \<Rightarrow> thrown" where
  "server_not_found serverName = Error (''Server '' @ quoted serverName @ '' not found in config'')"

definition createSession ::
  "world \<Rightarrow> mcp_client \<Rightarrow> string \<Rightarrow> bool \<Rightarrow> (thrown + session) \<times> mcp_client" where
  "createSession w c serverName autoInitialize =
     (let servers = servers_of c;
          c1 = (if servers = []
                then c\<lparr>client_log := client_log c @ [(Warn, ''No MCP servers defined in config'')]\<rparr>
                else c)
      in if \<not> truthy (map_of servers serverName) then (Inl (server_not_found serverName), c1)
         else
           (case map_of servers serverName of
              None \<Rightarrow> (Inl (server_not_found serverName), c1)
            | Some cfg \<Rightarrow>
                (case createConnectorFromConfig cfg of
                   Inl e \<Rightarrow> (Inl e, c1)
                 | Inr connector \<Rightarrow>
                     (case (if autoInitialize then initialize_outcome w connector else None) of
                        Some e \<Rightarrow> (Inl e, c1)
                      | None \<Rightarrow>
                          (Inr (MCPSession connector),
                           c1\<lparr>sessions := AList.update serverName (MCPSession connector) (sessions c1),
                              activeSessions :=
                                (if serverName \<in> set (activeSessions c1) then activeSessions c1
                                 else activeSessions c1 @ [serverName])\<rparr>)))))"


section \<open>The server manager and its meta-tools (managers/)\<close>

record server_manager =
  initializedServers :: "(string \<times> bool) list"
  serverTools :: "(string \<times> tool list) list"
  client :: mcp_client
  activeServer :: "string option"
  overrideManagementTools :: "tool list option"
  manager_log :: log

text \<open>\<open>new ServerManager(client, adapter)\<close>, without management tools of the caller.\<close>

definition new_ServerManager :: "mcp_client \<Rightarrow> server_manager" where
  "new_ServerManager c =
     \<lparr>initializedServers = [], serverTools = [], client = c, activeServer = None,
      overrideManagementTools = None, manager_log = []\<rparr>"

text \<open>Truthiness of \<open>activeServer : string | null\<close>: null and the empty string are falsy.\<close>

fun active_truthy :: "string option \<Rightarrow> bool" where
  "active_truthy None = False"
| "active_truthy (Some s) = (s \<noteq> [])"

definition default_management_tools :: "tool list" where
  "default_management_tools =
     [AddMCPServerFromConfigTool, ListMCPServersTool, ConnectMCPServerTool,
      AcquireActiveMCPServerTool, ReleaseMCPServerConnectionTool]"

text \<open>The \<open>tools\<close> getter.\<close>

definition tools :: "server_manager \<Rightarrow> tool list" where
  "tools m =
     (let managementTools =
            (case overrideManagementTools m of
               Some ts \<Rightarrow> ts
             | None \<Rightarrow> default_management_tools)
      in case activeServer m of
           None \<Rightarrow> managementTools
         | Some a \<Rightarrow>
             (if a \<noteq> [] then
                (case map_of (serverTools m) a of
                   Some activeTools \<Rightarrow> managementTools @ activeTools
                 | None \<Rightarrow> managementTools)
              else managementTools))"

text \<open>\<open>this.manager.serverTools[serverName] || []\<close>: the tools cached for a server.\<close>

definition cached_tools :: "server_manager \<Rightarrow> string \<Rightarrow> tool list" where
  "cached_tools m serverName =
     (case map_of (serverTools m) serverName of Some ts \<Rightarrow> ts | None \<Rightarrow> [])"

text \<open>\<open>ConnectMCPServerTool._call\<close>.\<close>

definition connect_failed :: "server_manager \<Rightarrow> string \<Rightarrow> thrown \<Rightarrow> string \<times> server_manager" where
  "connect_failed m serverName error =
     (''Failed to connect to server '' @ quoted serverName @ '': '' @ thrown_toString error,
      m\<lparr>manager_log := manager_log m @
           [(Err, ''Error connecting to server '' @ quoted serverName @ '': ''
                  @ thrown_toString error)]\<rparr>)"

definition connect_call :: "world \<Rightarrow> server_manager \<Rightarrow> string \<Rightarrow> string \<times> server_manager" where
  "connect_call w m serverName =
     (let serverNames = getServerNames (client m)
      in if serverName \<notin> set serverNames then
           (''Server '' @ quoted serverName @ '' not found. Available servers: ''
              @ (if serverNames \<noteq> [] then join '', '' serverNames else ''none''), m)
         else if activeServer m = Some serverName then
           (''Already connected to MCP server '' @ quoted serverName, m)
         else
           (case (case getSession (client m) serverName of
                    Some s \<Rightarrow> (Inr s, client m)
                  | None \<Rightarrow> createSession w (client m) serverName True) of
              (Inl error, c1) \<Rightarrow> connect_failed (m\<lparr>client := c1\<rparr>) serverName error
            | (Inr session, c1) \<Rightarrow>
                (let m1 = m\<lparr>client := c1, activeServer := Some serverName\<rparr>
                 in case (if map_of (serverTools m1) serverName \<noteq> None then
                            (case createToolsFromConnectors w (session_connector session) of
                               Inl error \<Rightarrow> Inl error
                             | Inr ts \<Rightarrow>
                                 Inr (m1\<lparr>serverTools := AList.update serverName ts (serverTools m1),
                                         initializedServers :=
                                           AList.update serverName True (initializedServers m1)\<rparr>))
                          else Inr m1) of
                      Inl error \<Rightarrow> connect_failed m1 serverName error
                    | Inr m2 \<Rightarrow>
                        (''Connected to MCP server '' @ quoted serverName @ ''. ''
                           @ string_of_nat (length (cached_tools m2 serverName))
                           @ '' tools are now available.'', m2))))"

text \<open>\<open>ReleaseMCPServerConnectionTool._call\<close> and \<open>AcquireActiveMCPServerTool._call\<close>.\<close>

definition release_call :: "server_manager \<Rightarrow> string \<times> server_manager" where
  "release_call m =
     (case activeServer m of
        None \<Rightarrow>
          (''No MCP server is currently active, so there's nothing to disconnect from.'', m)
      | Some serverName \<Rightarrow>
          (if \<not> active_truthy (Some serverName) then
             (''No MCP server is currently active, so there's nothing to disconnect from.'', m)
           else
             (''Successfully disconnected from MCP server '' @ quoted serverName @ ''.'',
              m\<lparr>activeServer := None\<rparr>)))"

definition acquire_call :: "server_manager \<Rightarrow> string \<times> server_manager" where
  "acquire_call m =
     (case activeServer m of
        None \<Rightarrow>
          (''No MCP server is currently active. Use connect_to_mcp_server to connect to a server.'', m)
      | Some serverName \<Rightarrow>
          (if \<not> active_truthy (Some serverName) then
             (''No MCP server is currently active. Use connect_to_mcp_server to connect to a server.'', m)
           else (''Currently active MCP server: '' @ serverName, m)))"

text \<open>\<open>tools.map(t => t.name)\<close> for the result text of the add tool.\<close>

fun tool_name :: "tool \<Rightarrow> string" where
  "tool_name AddMCPServerFromConfigTool = ''add_mcp_server_from_config''"
| "tool_name ListMCPServersTool = ''list_mcp_servers''"
| "tool_name ConnectMCPServerTool = ''connect_to_mcp_server''"
| "tool_name AcquireActiveMCPServerTool = ''get_active_mcp_server''"
| "tool_name ReleaseMCPServerConnectionTool = ''disconnect_from_mcp_server''"
| "tool_name (ServerTool n) = n"

text \<open>\<open>AddMCPServerFromConfigTool._call\<close>.\<close>

definition add_failed :: "server_manager \<Rightarrow> string \<Rightarrow> thrown \<Rightarrow> string \<times> server_manager" where
  "add_failed m serverName e =
     (''Failed to add or connect to server '' @ quoted serverName @ '': '' @ thrown_message e,
      m\<lparr>manager_log := manager_log m @
           [(Err, ''Failed to add or connect to server '' @ quoted serverName @ '': ''
                  @ thrown_message e)]\<rparr>)"

definition add_call ::
  "world \<Rightarrow> server_manager \<Rightarrow> string \<Rightarrow> json \<Rightarrow> string \<times> server_manager" where
  "add_call w m serverName serverConfig =
     (let m0 = m\<lparr>client := addServer (client m) serverName serverConfig\<rparr>
      in case createSession w (client m0) serverName True of
           (Inl e, c1) \<Rightarrow> add_failed (m0\<lparr>client := c1\<rparr>) serverName e
         | (Inr session, c1) \<Rightarrow>
             (case createToolsFromConnectors w (session_connector session) of
                Inl e \<Rightarrow> add_failed (m0\<lparr>client := c1\<rparr>) serverName e
              | Inr ts \<Rightarrow>
                  (''Server '' @ quoted serverName @ '' added to the client.''
                     @ '' Session created and connected. '' @ quoted serverName
                     @ '' is now the active server with '' @ string_of_nat (length ts)
                     @ '' tools available.'' @ [CHR 0x0A, CHR 0x0A]
                     @ join [CHR 0x0A] (map tool_name ts),
                   m0\<lparr>client := c1,
                      serverTools := AList.update serverName ts (serverTools m0),
                      initializedServers := AList.update serverName True (initializedServers m0),
                      activeServer := Some serverName\<rparr>)))"




text \<open>
  A scenario: one configured stdio server \<open>x\<close> whose connector offers two tools, and a
  manager freshly built on it.
\<close>

definition echo_world :: world where
  "echo_world =
     \<lparr>initialize_outcome = (\<lambda>c. None), disconnect_outcome = (\<lambda>c. Resolves),
      createToolsFromConnectors = (\<lambda>c. Inr [ServerTool ''echo'', ServerTool ''add''])\<rparr>"

definition echo_manager :: server_manager where
  "echo_manager =
     new_ServerManager
       \<lparr>mcpServers = Some [(''x'', JObj [(''command'', JStr ''echo''), (''args'', JArr [JStr ''hi''])])],
        sessions = [], activeSessions = [], client_log = []\<rparr>"

section \<open>The connection manager (task_managers/base.ts)\<close>

text \<open>
  The manager's own promises are state: \<open>readyResolved\<close> and \<open>doneResolved\<close> say whether
  the current \<open>_readyPromise\<close> and \<open>_donePromise\<close> have been resolved, \<open>task\<close> where the
  background task stands, \<open>aborted\<close> whether the abort signal has fired (the constructor
  runs \<open>reset\<close>, so the abort controller is never null). The subclass hooks are given
  by their settled outcomes: \<open>est\<close> is what \<open>establishConnection()\<close> settles with,
  \<open>close c\<close> what \<open>closeConnection(c)\<close> throws, if anything. \<open>hooks\<close> records every
  hook invocation in order. An awaiting caller that never resumes is \<open>None\<close>.
  In \<open>start\<close> and \<open>stop\<close> calls are sequential: \<open>start()\<close> has settled before
  \<open>stop()\<close> is called.
\<close>

datatype task = NoTask | AwaitingAbort | Finished

datatype 'c hook =
    EstablishConnection "thrown + 'c"
  | CloseConnection 'c "thrown option"

fun is_close :: "'c hook \<Rightarrow> bool" where
  "is_close (CloseConnection c r) = True"
| "is_close (EstablishConnection r) = False"

record 'c connection_manager =
  readyResolved :: bool
  doneResolved :: bool
  exception :: "thrown option"
  connection :: "'c option"
  task :: task
  aborted :: bool
  hooks :: "'c hook list"
  manager_name :: string
  cm_log :: log

definition reset :: "'c connection_manager \<Rightarrow> 'c connection_manager" where
  "reset m =
     m\<lparr>readyResolved := False, doneResolved := False, exception := None,
       connection := None, task := NoTask, aborted := False\<rparr>"

definition new_ConnectionManager :: "string \<Rightarrow> 'c connection_manager" where
  "new_ConnectionManager nm =
     reset \<lparr>readyResolved = False, doneResolved = False, exception = None, connection = None,
            task = NoTask, aborted = False, hooks = [], manager_name = nm, cm_log = []\<rparr>"

text \<open>The \<open>finally\<close> block of \<open>connectionTask\<close>.\<close>

definition connectionTask_finally ::
  "('c \<Rightarrow> thrown option) \<Rightarrow> 'c connection_manager \<Rightarrow> 'c connection_manager" where
  "connectionTask_finally close m =
     (let m1 = (case connection m of
                  None \<Rightarrow> m
                | Some c \<Rightarrow>
                    m\<lparr>hooks := hooks m @ [CloseConnection c (close c)],
                      cm_log := cm_log m @
                        (case close c of
                           None \<Rightarrow> []
                         | Some closeErr \<Rightarrow>
                             [(Warn, ''Error closing connection in '' @ manager_name m @ '': ''
                                     @ thrown_toString closeErr)]),
                      connection := None\<rparr>)
      in m1\<lparr>doneResolved := True, task := Finished\<rparr>)"

text \<open>
  \<open>waitForAbort\<close>: resolved at once when the signal has fired, otherwise the task
  stays suspended until \<open>abort()\<close>; then the \<open>finally\<close> block runs.
\<close>

definition waitForAbort ::
  "('c \<Rightarrow> thrown option) \<Rightarrow> 'c connection_manager \<Rightarrow> 'c connection_manager" where
  "waitForAbort close m =
     (if aborted m then connectionTask_finally close m else m\<lparr>task := AwaitingAbort\<rparr>)"

text \<open>
  The \<open>try\<close> and \<open>catch\<close> blocks of \<open>connectionTask\<close> up to the resolution of the ready
  promise.
\<close>

definition connectionTask_try ::
  "thrown + 'c \<Rightarrow> 'c connection_manager \<Rightarrow> 'c connection_manager" where
  "connectionTask_try est m =
     (case est of
        Inr c \<Rightarrow>
          m\<lparr>hooks := hooks m @ [EstablishConnection est], connection := Some c,
            readyResolved := True\<rparr>
      | Inl err \<Rightarrow>
          m\<lparr>hooks := hooks m @ [EstablishConnection est], exception := Some err,
            cm_log := cm_log m @
              [(Err, ''Error in '' @ manager_name m @ '' task: '' @ thrown_toString err)],
            readyResolved := True\<rparr>)"

definition connectionTask ::
  "thrown + 'c \<Rightarrow> ('c \<Rightarrow> thrown option) \<Rightarrow> 'c connection_manager \<Rightarrow> 'c connection_manager" where
  "connectionTask est close m =
     (let m1 = connectionTask_try est m
      in case est of
           Inr c \<Rightarrow> waitForAbort close m1
         | Inl err \<Rightarrow> connectionTask_finally close m1)"

text \<open>
  \<open>start\<close>: the caller resumes when the ready promise is resolved and reads
  \<open>_exception\<close> and \<open>_connection\<close>; the \<open>finally\<close> block does not touch \<open>_exception\<close>, and
  on success the task is suspended in \<open>waitForAbort\<close> with the connection in place.
\<close>

definition start ::
  "thrown + 'c \<Rightarrow> ('c \<Rightarrow> thrown option) \<Rightarrow> 'c connection_manager
     \<Rightarrow> (thrown + 'c) \<times> 'c connection_manager" where
  "start est close m =
     (let m1 = reset m;
          m2 = connectionTask_try est m1;
          m3 = connectionTask est close m1
      in ((case exception m2 of
             Some e \<Rightarrow> Inl e
           | None \<Rightarrow>
               (case connection m2 of
                  None \<Rightarrow> Inl (Error ''Connection was not established'')
                | Some c \<Rightarrow> Inr c)), m3))"

text \<open>
  \<open>stop\<close>: with a task, fire the abort signal and await the task (which never rejects:
  its \<open>catch\<close> and \<open>finally\<close> swallow every error); then await the done promise, which
  only the \<open>finally\<close> block of \<open>connectionTask\<close> resolves.
\<close>

definition stop ::
  "('c \<Rightarrow> thrown option) \<Rightarrow> 'c connection_manager \<Rightarrow> 'c connection_manager option" where
  "stop close m =
     (let m1 = (if task m \<noteq> NoTask then
                  (let ma = m\<lparr>aborted := True\<rparr>
                   in if task ma = AwaitingAbort then connectionTask_finally close ma else ma)
                else m)
      in if doneResolved m1 then Some m1 else None)"

text \<open>
  The one other order of a single cycle: \<open>stop()\<close> is called while \<open>start()\<close> still
  awaits the establishment. \<open>stop\<close> finds the task, fires the abort signal and awaits the
  task; when the establishment settles, the task runs on, \<open>waitForAbort\<close> finds the signal
  fired, the \<open>finally\<close> block runs, and \<open>stop\<close> resumes on the resolved done promise.
\<close>

definition stop_during_establishment ::
  "thrown + 'c \<Rightarrow> ('c \<Rightarrow> thrown option) \<Rightarrow> 'c connection_manager
     \<Rightarrow> 'c connection_manager option" where
  "stop_during_establishment est close m =
     (let m1 = reset m;
          m2 = m1\<lparr>aborted := True\<rparr>;
          m3 = connectionTask est close m2
      in if doneResolved m3 then Some m3 else None)"

section \<open>The HTTP connector and its fallback policy (connectors/http.ts, connectors/base.ts)\<close>

datatype transport = StreamableHttp | Sse

text \<open>
  One transport attempt (\<open>connectWithStreamableHttp\<close>, \<open>connectWithSse\<close>) ends in one of
  four ways: the connection manager's constructor throws, \<open>connectionManager.start()\<close>
  rejects, \<open>client.connect(transport)\<close> rejects, or everything succeeds.
\<close>

datatype attempt =
    ManagerFails thrown
  | StartFails thrown
  | ClientFails thrown
  | Succeeds

record http_world =
  streamable :: attempt
  sse :: attempt
  client_close :: "thrown option"
  manager_stop :: "thrown option"

datatype resource =
    ManagerCreated transport
  | ClientCreated
  | ClientClosed
  | ManagerStopped transport

record http_connector =
  baseUrl :: string
  preferSse :: bool
  connected :: bool
  transportType :: "transport option"
  has_client :: bool
  connectionManager :: "transport option"
  toolsCache :: "string list option"
  resources :: "resource list"
  http_log :: log

definition new_HttpConnector_state :: "string \<Rightarrow> bool \<Rightarrow> http_connector" where
  "new_HttpConnector_state url forceSse =
     \<lparr>baseUrl = strip_trailing_slash url, preferSse = forceSse, connected = False,
      transportType = None, has_client = False, connectionManager = None, toolsCache = None,
      resources = [], http_log = []\<rparr>"

text \<open>\<open>BaseConnector.cleanupResources\<close>: close the client, stop the manager, drop the cache.\<close>

definition cleanupResources :: "http_world \<Rightarrow> http_connector \<Rightarrow> http_connector" where
  "cleanupResources hw c =
     (let issues1 = (if has_client c then
                       (case client_close hw of
                          None \<Rightarrow> []
                        | Some e \<Rightarrow> [''Error closing client: '' @ thrown_toString e])
                     else []);
          c1 = (if has_client c then
                  c\<lparr>resources := resources c @ [ClientClosed],
                    http_log := http_log c @ map (Pair Warn) issues1,
                    has_client := False\<rparr>
                else c);
          issues2 = (case connectionManager c1 of
                       None \<Rightarrow> []
                     | Some k \<Rightarrow>
                         (case manager_stop hw of
                            None \<Rightarrow> []
                          | Some e \<Rightarrow> [''Error stopping connection manager: '' @ thrown_toString e]));
          c2 = (case connectionManager c1 of
                  None \<Rightarrow> c1
                | Some k \<Rightarrow>
                    c1\<lparr>resources := resources c1 @ [ManagerStopped k],
                       http_log := http_log c1 @ map (Pair Warn) issues2,
                       connectionManager := None\<rparr>);
          c3 = c2\<lparr>toolsCache := None\<rparr>;
          issues = issues1 @ issues2
      in if issues \<noteq> [] then
           c3\<lparr>http_log := http_log c3 @
                [(Warn, ''Resource cleanup finished with '' @ string_of_nat (length issues)
                        @ '' issue(s)'')]\<rparr>
         else c3)"

text \<open>The common shape of \<open>connectWithStreamableHttp\<close> and \<open>connectWithSse\<close>.\<close>

definition connectWith ::
  "transport \<Rightarrow> attempt \<Rightarrow> http_world \<Rightarrow> http_connector \<Rightarrow> (thrown + unit) \<times> http_connector" where
  "connectWith k outcome hw c =
     (case outcome of
        ManagerFails err \<Rightarrow> (Inl err, cleanupResources hw c)
      | StartFails err \<Rightarrow>
          (Inl err,
           cleanupResources hw
             (c\<lparr>connectionManager := Some k, resources := resources c @ [ManagerCreated k]\<rparr>))
      | ClientFails err \<Rightarrow>
          (Inl err,
           cleanupResources hw
             (c\<lparr>connectionManager := Some k, has_client := True,
                resources := resources c @ [ManagerCreated k, ClientCreated]\<rparr>))
      | Succeeds \<Rightarrow>
          (Inr (),
           c\<lparr>connectionManager := Some k, has_client := True,
             resources := resources c @ [ManagerCreated k, ClientCreated],
             connected := True, transportType := Some k\<rparr>))"

definition connectWithStreamableHttp ::
  "http_world \<Rightarrow> http_connector \<Rightarrow> (thrown + unit) \<times> http_connector" where
  "connectWithStreamableHttp hw c = connectWith StreamableHttp (streamable hw) hw c"

definition connectWithSse ::
  "http_world \<Rightarrow> http_connector \<Rightarrow> (thrown + unit) \<times> http_connector" where
  "connectWithSse hw c = connectWith Sse (sse hw) hw c"

text \<open>The fallback reason computed in the \<open>catch\<close> of \<open>connect\<close>.\<close>

fun fallbackReason :: "thrown \<Rightarrow> string" where
  "fallbackReason (StreamableHTTPError code msg) =
     (if code = 404 \<or> code = 405 then
        ''Server returned '' @ string_of_nat code
          @ '' - server likely doesn't support streamable HTTP''
      else ''Server returned '' @ string_of_nat code @ '': '' @ msg)"
| "fallbackReason (JsError nm msg) =
     (let errorStr = error_toString nm msg
      in if str_includes errorStr ''405 Method Not Allowed'' \<or> str_includes errorStr ''404 Not Found''
         then ''Server doesn't support streamable HTTP (405/404)''
         else ''Streamable HTTP failed: '' @ msg)"
| "fallbackReason (Thrown v) = ''Unknown error''"

definition connect :: "http_world \<Rightarrow> http_connector \<Rightarrow> (thrown + unit) \<times> http_connector" where
  "connect hw c =
     (if connected c then (Inr (), c)
      else if preferSse c then connectWithSse hw c
      else
        (case connectWithStreamableHttp hw c of
           (Inr u, c1) \<Rightarrow> (Inr (), c1)
         | (Inl err, c1) \<Rightarrow>
             (case connectWithSse hw c1 of
                (Inr u, c2) \<Rightarrow> (Inr (), c2)
              | (Inl sseErr, c2) \<Rightarrow>
                  (Inl (Error ''Could not connect to server with any available transport''),
                   cleanupResources hw
                     (c2\<lparr>http_log := http_log c2 @
                          [(Err, ''Failed to connect with both transports:''),
                           (Err, ''  Streamable HTTP: '' @ fallbackReason err),
                           (Err, ''  SSE: '' @ thrown_toString sseErr)]\<rparr>)))))"

definition disconnect :: "http_world \<Rightarrow> http_connector \<Rightarrow> http_connector" where
  "disconnect hw c = (if \<not> connected c then c else (cleanupResources hw c)\<lparr>connected := False\<rparr>)"

definition publicIdentifier :: "http_connector \<Rightarrow> (string \<times> string) list" where
  "publicIdentifier c =
     [(''type'', ''http''),
      (''url'', baseUrl c),
      (''transport'',
         (case transportType c of
            Some StreamableHttp \<Rightarrow> ''streamable-http''
          | Some Sse \<Rightarrow> ''sse''
          | None \<Rightarrow> ''unknown''))]"

text \<open>The error an attempt fails with, if it fails.\<close>

fun attempt_error :: "attempt \<Rightarrow> thrown option" where
  "attempt_error (ManagerFails e) = Some e"
| "attempt_error (StartFails e) = Some e"
| "attempt_error (ClientFails e) = Some e"
| "attempt_error Succeeds = None"

text \<open>The states a connector reaches from construction through \<open>connect\<close> and \<open>disconnect\<close>.\<close>

inductive http_reachable :: "http_connector \<Rightarrow> bool" where
  http_new: "http_reachable (new_HttpConnector_state url forceSse)"
| http_connect: "http_reachable c \<Longrightarrow> http_reachable (snd (connect hw c))"
| http_disconnect: "http_reachable c \<Longrightarrow> http_reachable (disconnect hw c)"

text \<open>
  A trace of resource events leaks nothing when every created manager was stopped and every
  created client closed.
\<close>

definition released :: "resource list \<Rightarrow> bool" where
  "released tr =
     (count_list tr (ManagerCreated StreamableHttp) = count_list tr (ManagerStopped StreamableHttp)
      \<and> count_list tr (ManagerCreated Sse) = count_list tr (ManagerStopped Sse)
      \<and> count_list tr ClientCreated = count_list tr ClientClosed)"

text \<open>A connector that is not connected holds neither a client nor a manager.\<close>

definition http_inv :: "http_connector \<Rightarrow> bool" where
  "http_inv c = (connected c \<or> (\<not> has_client c \<and> connectionManager c = None))"

section \<open>The WebSocket connector's pending requests (connectors/websocket.ts)\<close>

text \<open>
  Each \<open>sendRequest\<close> creates a promise; promises are numbered in creation order and
  \<open>promises\<close> holds the state of each. The \<open>pending\<close> map (a JavaScript \<open>Map\<close>, in
  insertion order) takes a request id to the resolver of its promise. Resolving or
  rejecting a promise that is already settled does nothing. \<open>receiverTask\<close> says whether
  the field holds a promise, \<open>receiverDone\<close> whether the promise returned by the latest
  \<open>receiveLoop\<close> call is resolved. \<open>ws\<close> stands for the socket and for its connection
  manager, which \<open>connect\<close> sets together and \<open>cleanupResources\<close> clears together.
\<close>

datatype promise_state =
    Unsettled
  | Resolved jsval
  | RejectedError thrown
  | RejectedValue jsval

record ws_connector =
  ws :: bool
  ws_connected :: bool
  pending :: "(string \<times> nat) list"
  promises :: "promise_state list"
  messageListener :: bool
  closeListener :: bool
  receiverTask :: bool
  receiverDone :: bool
  ws_log :: log

definition new_WebSocketConnector :: ws_connector where
  "new_WebSocketConnector =
     \<lparr>ws = False, ws_connected = False, pending = [], promises = [], messageListener = False,
      closeListener = False, receiverTask = False, receiverDone = False, ws_log = []\<rparr>"

definition settle :: "nat \<Rightarrow> promise_state \<Rightarrow> promise_state list \<Rightarrow> promise_state list" where
  "settle p st ps = (if p < length ps \<and> ps ! p = Unsettled then ps[p := st] else ps)"

text \<open>
  \<open>sendRequest\<close>: \<open>rid\<close> is the fresh uuid, \<open>sendErr\<close> the error the socket's send callback
  reports, if any. Returns the number of the promise handed to the caller.
\<close>

definition sendRequest ::
  "string \<Rightarrow> thrown option \<Rightarrow> ws_connector \<Rightarrow> (thrown + nat) \<times> ws_connector" where
  "sendRequest rid sendErr s =
     (if \<not> ws s then (Inl (Error ''WebSocket is not connected''), s)
      else
        (let p = length (promises s);
             s1 = s\<lparr>promises := promises s @ [Unsettled], pending := AList.update rid p (pending s)\<rparr>
         in case sendErr of
              None \<Rightarrow> (Inr p, s1)
            | Some err \<Rightarrow>
                (Inr p,
                 s1\<lparr>pending := AList.delete rid (pending s1),
                    promises := settle p (RejectedError err) (promises s1)\<rparr>)))"

definition rejectAll :: "thrown \<Rightarrow> ws_connector \<Rightarrow> ws_connector" where
  "rejectAll err s =
     s\<lparr>promises := fold (\<lambda>p ps. settle p (RejectedError err) ps) (map snd (pending s)) (promises s),
       pending := []\<rparr>"

text \<open>
  The \<open>message\<close> listener of \<open>receiveLoop\<close>; \<open>frame\<close> is the parsed frame, \<open>None\<close> when
  \<open>JSON.parse\<close> throws. Reading \<open>data.id\<close> of \<open>null\<close> throws inside the listener and leaves
  the connector as it was.
\<close>

definition onMessage :: "json option \<Rightarrow> ws_connector \<Rightarrow> ws_connector" where
  "onMessage frame s =
     (case frame of
        None \<Rightarrow> s\<lparr>ws_log := ws_log s @ [(Warn, ''Received non-JSON frame'')]\<rparr>
      | Some (JObj data) \<Rightarrow>
          (case get_prop data ''id'' of
             Some (JStr rid) \<Rightarrow>
               (if rid \<noteq> [] then
                  (case map_of (pending s) rid of
                     Some p \<Rightarrow>
                       (let s1 = s\<lparr>pending := AList.delete rid (pending s)\<rparr>
                        in if has_key ''result'' data then
                             s1\<lparr>promises := settle p (Resolved (get_prop data ''result'')) (promises s1)\<rparr>
                           else if has_key ''error'' data then
                             s1\<lparr>promises :=
                                  settle p (RejectedValue (get_prop data ''error'')) (promises s1)\<rparr>
                           else s1)
                   | None \<Rightarrow> s)
                else s)
           | _ \<Rightarrow> s)
      | Some _ \<Rightarrow> s)"

text \<open>The \<open>close\<close> listener of \<open>receiveLoop\<close>.\<close>

definition onClose :: "ws_connector \<Rightarrow> ws_connector" where
  "onClose s =
     (rejectAll (Error ''WebSocket closed'') (s\<lparr>messageListener := False\<rparr>))\<lparr>receiverDone := True\<rparr>"

definition receiveLoop :: "ws_connector \<Rightarrow> ws_connector" where
  "receiveLoop s =
     (if \<not> ws s then s\<lparr>receiverDone := True\<rparr>
      else s\<lparr>messageListener := True, closeListener := True, receiverDone := False\<rparr>)"

text \<open>
  The success path of \<open>connect\<close>, once \<open>connectionManager.start()\<close> has returned the
  socket, and the socket's events as the registered listeners see them.
\<close>

definition connect_established :: "ws_connector \<Rightarrow> ws_connector" where
  "connect_established s =
     (receiveLoop (s\<lparr>ws := True\<rparr>))\<lparr>receiverTask := True, ws_connected := True\<rparr>"

definition socket_message :: "json option \<Rightarrow> ws_connector \<Rightarrow> ws_connector" where
  "socket_message frame s = (if messageListener s then onMessage frame s else s)"

definition socket_close :: "ws_connector \<Rightarrow> ws_connector" where
  "socket_close s = (if closeListener s then onClose s else s)"

text \<open>
  \<open>WebSocketConnector.cleanupResources\<close> and \<open>disconnect\<close>; \<open>None\<close> is a promise that
  never settles. \<open>cleanupResources\<close> first awaits the receiver task, which only the
  socket's close event resolves, and only afterwards stops the connection manager, which is
  what closes the socket: while the socket is open the await stays pending. Once the
  receiver task is resolved the pending requests are rejected and the manager stopped
  (\<open>stop\<close> after a settled \<open>start\<close> resolves, see \<open>stop_after_start_resolves\<close>).
\<close>

definition ws_cleanupResources :: "ws_connector \<Rightarrow> ws_connector option" where
  "ws_cleanupResources s =
     (if receiverTask s \<and> \<not> receiverDone s then None
      else
        (let s1 = s\<lparr>receiverTask := False\<rparr>;
             s2 = rejectAll (Error ''WebSocket disconnected'') s1
         in Some (if ws s2 then s2\<lparr>ws := False\<rparr> else s2)))"

definition ws_disconnect :: "ws_connector \<Rightarrow> ws_connector option" where
  "ws_disconnect s =
     (if \<not> ws_connected s then Some s
      else
        (case ws_cleanupResources s of
           None \<Rightarrow> None
         | Some s1 \<Rightarrow> Some (s1\<lparr>ws_connected := False\<rparr>)))"


text \<open>
  The invariant of the pending map: every entry holds the resolver of a promise that exists
  and is still unsettled, and no two entries share a promise.
\<close>

definition pending_wf :: "ws_connector \<Rightarrow> bool" where
  "pending_wf s =
     (list_all (\<lambda>(rid, p). p < length (promises s) \<and> promises s ! p = Unsettled) (pending s)
      \<and> distinct (map snd (pending s)))"

text \<open>
  The states a connector reaches through connecting, sending, socket events and
  completed disconnects.
\<close>

inductive ws_reachable :: "ws_connector \<Rightarrow> bool" where
  ws_new: "ws_reachable new_WebSocketConnector"
| ws_connect: "ws_reachable s \<Longrightarrow> ws_reachable (connect_established s)"
| ws_send: "ws_reachable s \<Longrightarrow> ws_reachable (snd (sendRequest rid sendErr s))"
| ws_message: "ws_reachable s \<Longrightarrow> ws_reachable (socket_message frame s)"
| ws_close: "ws_reachable s \<Longrightarrow> ws_reachable (socket_close s)"
| ws_disconnected: "ws_reachable s \<Longrightarrow> ws_disconnect s = Some s1 \<Longrightarrow> ws_reachable s1"

text \<open>A connected connector with two requests in flight.\<close>

definition two_pending :: ws_connector where
  "two_pending =
     snd (sendRequest ''req-2'' None (snd (sendRequest ''req-1'' None (connect_established new_WebSocketConnector))))"





section \<open>Connector construction: results\<close>

text \<open>
  C9 (as the code has it). A configuration written with the key \<open>wsUrl\<close> matches no
  branch of \<open>createConnectorFromConfig\<close>: the WebSocket branch tests the key \<open>ws_url\<close>.
\<close>

theorem createConnectorFromConfig_wsUrl_counterexample:
  "createConnectorFromConfig (JObj [(''wsUrl'', JStr ''ws://localhost:8080'')])
     = Inl (Error ''Cannot determine connector type from config'')"
  by (simp add: createConnectorFromObject_def has_key_def)

text \<open>
  C9 (amended). For every configuration object the connector is chosen by key presence in
  the order \<open>command\<close> and \<open>args\<close>, then \<open>url\<close>, then \<open>ws_url\<close>: with \<open>command\<close> and
  \<open>args\<close> a stdio connector; otherwise, with a \<open>url\<close> key, an HTTP connector when the
  \<open>url\<close> value is a string and a \<open>TypeError\<close> when it is not (the \<open>ws_url\<close> key is not
  consulted); otherwise, with a \<open>ws_url\<close> key, a WebSocket connector; and with none of
  these keys the error \<open>Cannot determine connector type from config\<close>.
  \<open>createSession\<close> on a server configured with that object raises what the construction
  raises and otherwise wraps the constructed connector in the session it returns (after
  the session's initialization, when requested, has succeeded).
\<close>

theorem createConnectorFromConfig_precedence:
  "(has_key ''command'' cfg \<and> has_key ''args'' cfg \<longrightarrow>
      (\<exists>c. createConnectorFromConfig (JObj cfg) = Inr c \<and> is_stdio c))
   \<and> (\<not> (has_key ''command'' cfg \<and> has_key ''args'' cfg) \<and> get_prop cfg ''url'' = Some (JStr u) \<longrightarrow>
      (\<exists>c. createConnectorFromConfig (JObj cfg) = Inr c \<and> is_http c))
   \<and> (\<not> (has_key ''command'' cfg \<and> has_key ''args'' cfg) \<and> has_key ''url'' cfg
        \<and> (\<forall>v. get_prop cfg ''url'' \<noteq> Some (JStr v)) \<longrightarrow>
      (\<exists>msg. createConnectorFromConfig (JObj cfg) = Inl (TypeError msg)))
   \<and> (\<not> (has_key ''command'' cfg \<and> has_key ''args'' cfg) \<and> \<not> has_key ''url'' cfg
        \<and> has_key ''ws_url'' cfg \<longrightarrow>
      (\<exists>c. createConnectorFromConfig (JObj cfg) = Inr c \<and> is_websocket c))
   \<and> (\<not> (has_key ''command'' cfg \<and> has_key ''args'' cfg) \<and> \<not> has_key ''url'' cfg
        \<and> \<not> has_key ''ws_url'' cfg \<longrightarrow>
      createConnectorFromConfig (JObj cfg) = Inl (Error ''Cannot determine connector type from config''))
   \<and> (map_of (servers_of cl) name = Some (JObj cfg) \<longrightarrow>
      fst (createSession w cl name auto) =
        (case createConnectorFromConfig (JObj cfg) of
           Inl e \<Rightarrow> Inl e
         | Inr c \<Rightarrow>
             (case (if auto then initialize_outcome w c else None) of
                Some e \<Rightarrow> Inl e
              | None \<Rightarrow> Inr (MCPSession c))))"
proof (intro conjI impI)
  assume "has_key ''command'' cfg \<and> has_key ''args'' cfg"
  then show "\<exists>c. createConnectorFromConfig (JObj cfg) = Inr c \<and> is_stdio c"
    by (simp add: createConnectorFromObject_def)
next
  assume "\<not> (has_key ''command'' cfg \<and> has_key ''args'' cfg) \<and> get_prop cfg ''url'' = Some (JStr u)"
  then show "\<exists>c. createConnectorFromConfig (JObj cfg) = Inr c \<and> is_http c"
    by (auto simp: createConnectorFromObject_def new_HttpConnector_def has_key_def get_prop_def Let_def)
next
  assume h: "\<not> (has_key ''command'' cfg \<and> has_key ''args'' cfg) \<and> has_key ''url'' cfg
        \<and> (\<forall>v. get_prop cfg ''url'' \<noteq> Some (JStr v))"
  then obtain j where j: "get_prop cfg ''url'' = Some j" "\<forall>v. j \<noteq> JStr v"
    by (auto simp: has_key_def get_prop_def)
  then have "\<exists>msg. new_HttpConnector (Some j) hd au ps = Inl (TypeError msg)" for hd au ps
    by (cases j) (simp_all add: new_HttpConnector_def)
  with h j(1) show "\<exists>msg. createConnectorFromConfig (JObj cfg) = Inl (TypeError msg)"
    by (simp add: createConnectorFromObject_def Let_def)
next
  assume "\<not> (has_key ''command'' cfg \<and> has_key ''args'' cfg) \<and> \<not> has_key ''url'' cfg
        \<and> has_key ''ws_url'' cfg"
  then show "\<exists>c. createConnectorFromConfig (JObj cfg) = Inr c \<and> is_websocket c"
    by (auto simp: createConnectorFromObject_def)
next
  assume "\<not> (has_key ''command'' cfg \<and> has_key ''args'' cfg) \<and> \<not> has_key ''url'' cfg
        \<and> \<not> has_key ''ws_url'' cfg"
  then show "createConnectorFromConfig (JObj cfg)
      = Inl (Error ''Cannot determine connector type from config'')"
    by (auto simp: createConnectorFromObject_def)
next
  assume "map_of (servers_of cl) name = Some (JObj cfg)"
  then show "fst (createSession w cl name auto) =
        (case createConnectorFromConfig (JObj cfg) of
           Inl e \<Rightarrow> Inl e
         | Inr c \<Rightarrow>
             (case (if auto then initialize_outcome w c else None) of
                Some e \<Rightarrow> Inl e
              | None \<Rightarrow> Inr (MCPSession c)))"
    by (auto simp: createSession_def Let_def split: sum.splits option.splits)
qed

theorem createConnectorFromConfig_precedence_witness:
  "(\<exists>c. createConnectorFromConfig (JObj [(''command'', JStr ''echo''), (''args'', JArr [JStr ''hi'']),
        (''url'', JStr ''http://h/'')]) = Inr c \<and> is_stdio c)
   \<and> (\<exists>c. createConnectorFromConfig (JObj [(''command'', JStr ''echo''), (''url'', JStr ''http://h/''),
        (''ws_url'', JStr ''ws://h'')]) = Inr c \<and> is_http c)
   \<and> (\<exists>msg. createConnectorFromConfig (JObj [(''url'', JNum 5), (''ws_url'', JStr ''ws://h'')])
        = Inl (TypeError msg))
   \<and> (\<exists>c. createConnectorFromConfig (JObj [(''ws_url'', JStr ''ws://h'')]) = Inr c \<and> is_websocket c)
   \<and> createConnectorFromConfig (JObj [(''wsUrl'', JStr ''ws://h'')])
        = Inl (Error ''Cannot determine connector type from config'')
   \<and> fst (createSession
             \<lparr>initialize_outcome = (\<lambda>c. None), disconnect_outcome = (\<lambda>c. Resolves),
              createToolsFromConnectors = (\<lambda>c. Inr [])\<rparr>
             \<lparr>mcpServers = Some [(''a'', JObj [(''ws_url'', JStr ''ws://h'')])], sessions = [],
              activeSessions = [], client_log = []\<rparr> ''a'' True)
        = Inr (MCPSession (WebSocketConnector (Some (JStr ''ws://h'')) None None))"
proof -
  let ?w = "\<lparr>initialize_outcome = (\<lambda>c. None), disconnect_outcome = (\<lambda>c. Resolves),
              createToolsFromConnectors = (\<lambda>c. Inr [])\<rparr>"
  let ?cl = "\<lparr>mcpServers = Some [(''a'', JObj [(''ws_url'', JStr ''ws://h'')])], sessions = [],
              activeSessions = [], client_log = []\<rparr>"
  have 1: "\<exists>c. createConnectorFromConfig (JObj [(''command'', JStr ''echo''), (''args'', JArr [JStr ''hi'']),
        (''url'', JStr ''http://h/'')]) = Inr c \<and> is_stdio c"
    using createConnectorFromConfig_precedence
      [of "[(''command'', JStr ''echo''), (''args'', JArr [JStr ''hi'']), (''url'', JStr ''http://h/'')]"]
    by (simp add: has_key_def)
  have 2: "\<exists>c. createConnectorFromConfig (JObj [(''command'', JStr ''echo''), (''url'', JStr ''http://h/''),
        (''ws_url'', JStr ''ws://h'')]) = Inr c \<and> is_http c"
    using createConnectorFromConfig_precedence
      [of "[(''command'', JStr ''echo''), (''url'', JStr ''http://h/''), (''ws_url'', JStr ''ws://h'')]"
          "''http://h/''"]
    by (simp add: has_key_def get_prop_def)
  have 3: "\<exists>msg. createConnectorFromConfig (JObj [(''url'', JNum 5), (''ws_url'', JStr ''ws://h'')])
        = Inl (TypeError msg)"
    using createConnectorFromConfig_precedence [of "[(''url'', JNum 5), (''ws_url'', JStr ''ws://h'')]"]
    by (simp add: has_key_def get_prop_def)
  have 4: "\<exists>c. createConnectorFromConfig (JObj [(''ws_url'', JStr ''ws://h'')]) = Inr c \<and> is_websocket c"
    using createConnectorFromConfig_precedence [of "[(''ws_url'', JStr ''ws://h'')]"]
    by (simp add: has_key_def)
  have 5: "createConnectorFromConfig (JObj [(''wsUrl'', JStr ''ws://h'')])
        = Inl (Error ''Cannot determine connector type from config'')"
    using createConnectorFromConfig_precedence [of "[(''wsUrl'', JStr ''ws://h'')]"]
    by (simp add: has_key_def)
  have 6: "fst (createSession ?w ?cl ''a'' True)
        = Inr (MCPSession (WebSocketConnector (Some (JStr ''ws://h'')) None None))"
    using createConnectorFromConfig_precedence
      [of "[(''ws_url'', JStr ''ws://h'')]" _ ?cl "''a''" ?w True]
    by (simp add: has_key_def get_prop_def servers_of_def createConnectorFromObject_def)
  from 1 2 3 4 5 6 show ?thesis by blast
qed

section \<open>Closing a session: results\<close>






section \<open>The connection manager: results\<close>

text \<open>
  C2 (the code at the failing input). On a manager that was never started, \<open>stop\<close> skips
  the abort branch and awaits the done promise, which \<open>reset\<close> created unresolved and
  which only the background task resolves: \<open>stop\<close> never resolves.
\<close>

theorem stop_before_start_never_resolves:
  "stop close (new_ConnectionManager nm) = None"
  by (simp add: stop_def new_ConnectionManager_def reset_def)

lemma stop_after_start_resolves:
  "\<exists>m'. stop close (snd (start est close m)) = Some m'"
  by (cases est)
     (simp_all add: stop_def start_def connectionTask_def connectionTask_try_def waitForAbort_def
        connectionTask_finally_def reset_def Let_def)

lemma start_hooks:
  "hooks (snd (start est close m)) = hooks m @ [EstablishConnection est]"
  by (cases est)
     (simp_all add: start_def connectionTask_def connectionTask_try_def waitForAbort_def
        connectionTask_finally_def reset_def Let_def)

lemma start_stop_hooks:
  assumes "stop close (snd (start est close m)) = Some m'"
  shows "hooks m' = hooks m @
     (case est of
        Inl e \<Rightarrow> [EstablishConnection est]
      | Inr c \<Rightarrow> [EstablishConnection est, CloseConnection c (close c)])"
  using assms
  by (cases est)
     (auto simp: stop_def start_def connectionTask_def connectionTask_try_def waitForAbort_def
        connectionTask_finally_def reset_def Let_def)

lemma stop_during_establishment_resolves:
  "\<exists>m'. stop_during_establishment est close m = Some m'"
  by (cases est)
     (simp_all add: stop_during_establishment_def connectionTask_def connectionTask_try_def
        waitForAbort_def connectionTask_finally_def reset_def Let_def)

lemma stop_during_establishment_hooks:
  assumes "stop_during_establishment est close m = Some m'"
  shows "hooks m' = hooks m @
     (case est of
        Inl e \<Rightarrow> [EstablishConnection est]
      | Inr c \<Rightarrow> [EstablishConnection est, CloseConnection c (close c)])"
  using assms
  by (cases est)
     (auto simp: stop_during_establishment_def connectionTask_def connectionTask_try_def
        waitForAbort_def connectionTask_finally_def reset_def Let_def)

text \<open>
  C7. In one cycle of \<open>start\<close> and \<open>stop\<close> (\<open>stop\<close> called after \<open>start\<close> has settled,
  or while it still awaits the establishment), once \<open>stop\<close> has completed the hooks
  invoked during the cycle contain at most one \<open>closeConnection\<close>, and one occurs only
  after \<open>establishConnection\<close> has succeeded, on the connection it returned.
\<close>

theorem closeConnection_at_most_once:
  assumes "stop close (snd (start est close m)) = Some m'
           \<or> stop_during_establishment est close m = Some m'"
  shows "\<exists>cyc. hooks m' = hooks m @ cyc
           \<and> length (filter is_close cyc) \<le> 1
           \<and> (\<forall>c r. CloseConnection c r \<in> set cyc \<longrightarrow>
                 est = Inr c \<and> cyc = [EstablishConnection (Inr c), CloseConnection c r])"
proof -
  from assms have "hooks m' = hooks m @
     (case est of
        Inl e \<Rightarrow> [EstablishConnection est]
      | Inr c \<Rightarrow> [EstablishConnection est, CloseConnection c (close c)])"
    using start_stop_hooks stop_during_establishment_hooks by blast
  then show ?thesis by (cases est) auto
qed

lemma second_stop_adds_no_hook:
  assumes "stop close (snd (start est close m)) = Some m'"
  shows "\<exists>m''. stop close m' = Some m'' \<and> hooks m'' = hooks m'"
  using assms
  by (cases est)
     (auto simp: stop_def start_def connectionTask_def connectionTask_try_def waitForAbort_def
        connectionTask_finally_def reset_def Let_def)

theorem closeConnection_at_most_once_witness:
  "stop (\<lambda>c. None) (snd (start (Inr (7::nat)) (\<lambda>c. None) (new_ConnectionManager ''SseConnectionManager'')))
     = Some \<lparr>readyResolved = True, doneResolved = True, exception = None, connection = None,
             task = Finished, aborted = True,
             hooks = [EstablishConnection (Inr 7), CloseConnection 7 None],
             manager_name = ''SseConnectionManager'', cm_log = []\<rparr>
   \<and> length (filter is_close [EstablishConnection (Inr (7::nat)), CloseConnection 7 None]) \<le> 1"
proof -
  let ?m = "new_ConnectionManager ''SseConnectionManager'' :: nat connection_manager"
  let ?m' = "\<lparr>readyResolved = True, doneResolved = True, exception = None, connection = None,
             task = Finished, aborted = True,
             hooks = [EstablishConnection (Inr (7::nat)), CloseConnection 7 None],
             manager_name = ''SseConnectionManager'', cm_log = []\<rparr>"
  have h: "stop (\<lambda>c. None) (snd (start (Inr (7::nat)) (\<lambda>c. None) ?m)) = Some ?m'"
    by (simp add: stop_def start_def connectionTask_def connectionTask_try_def waitForAbort_def
        connectionTask_finally_def reset_def new_ConnectionManager_def Let_def)
  from closeConnection_at_most_once [OF disjI1, OF h] have
    "\<exists>cyc. hooks ?m' = hooks ?m @ cyc \<and> length (filter is_close cyc) \<le> 1" by blast
  then have "length (filter is_close [EstablishConnection (Inr (7::nat)), CloseConnection 7 None]) \<le> 1"
    by (simp add: new_ConnectionManager_def reset_def)
  with h show ?thesis by blast
qed

section \<open>The WebSocket connector: results\<close>

lemma settle_length [simp]: "length (settle p st ps) = length ps"
  by (simp add: settle_def)

lemma settle_nth:
  "q < length ps \<Longrightarrow> settle p st ps ! q = (if q = p \<and> ps ! p = Unsettled then st else ps ! q)"
  by (simp add: settle_def nth_list_update)

lemma fold_settle_length [simp]:
  "length (fold (\<lambda>p. settle p st) xs ps) = length ps"
  by (induction xs arbitrary: ps) simp_all

lemma fold_settle_nth:
  "q < length ps \<Longrightarrow>
     fold (\<lambda>p. settle p st) xs ps ! q = (if q \<in> set xs \<and> ps ! q = Unsettled then st else ps ! q)"
proof (induction xs arbitrary: ps)
  case Nil
  then show ?case by simp
next
  case (Cons x xs)
  then show ?case by (auto simp: settle_nth)
qed

lemma in_delete_alist:
  "(rid, p) \<in> set (AList.delete k al) \<longleftrightarrow> (rid, p) \<in> set al \<and> rid \<noteq> k"
  by (induction al) auto

lemma in_update_alist:
  "(rid, p) \<in> set (AList.update k v al) \<Longrightarrow> (rid, p) \<in> set al \<or> (rid = k \<and> p = v)"
  by (induction al) (auto split: if_splits)

lemma distinct_snd_delete:
  "distinct (map snd al) \<Longrightarrow> distinct (map snd (AList.delete k al))"
  by (simp add: AList.delete_eq distinct_map_filter)

lemma snd_update_subset:
  "snd ` set (AList.update k v al) \<subseteq> insert v (snd ` set al)"
  by (induction al) auto

lemma distinct_snd_update:
  "distinct (map snd al) \<Longrightarrow> v \<notin> snd ` set al \<Longrightarrow> distinct (map snd (AList.update k v al))"
proof (induction al)
  case Nil
  then show ?case by simp
next
  case (Cons a al)
  obtain r q where a: "a = (r, q)" by (cases a)
  show ?case
  proof (cases "r = k")
    case True
    with Cons.prems a show ?thesis by auto
  next
    case False
    from Cons.prems a have "q \<notin> snd ` set al" "q \<noteq> v" by auto
    with snd_update_subset [of k v al] have "q \<notin> snd ` set (AList.update k v al)" by blast
    with Cons a False show ?thesis by simp
  qed
qed

lemma pending_wf_iff:
  "pending_wf s \<longleftrightarrow>
     (\<forall>(rid, p) \<in> set (pending s). p < length (promises s) \<and> promises s ! p = Unsettled)
     \<and> distinct (map snd (pending s))"
  by (simp add: pending_wf_def list_all_iff)

lemma pending_wfI:
  assumes "\<And>r q. (r, q) \<in> set (pending s) \<Longrightarrow> q < length (promises s) \<and> promises s ! q = Unsettled"
    and "distinct (map snd (pending s))"
  shows "pending_wf s"
  using assms unfolding pending_wf_iff by blast

lemma pending_wf_new: "pending_wf new_WebSocketConnector"
  by (simp add: pending_wf_def new_WebSocketConnector_def)

lemma pending_wf_connect: "pending_wf s \<Longrightarrow> pending_wf (connect_established s)"
  by (simp add: pending_wf_def connect_established_def receiveLoop_def)

lemma pending_wf_disconnect:
  assumes "pending_wf s" and "ws_disconnect s = Some s1"
  shows "pending_wf s1"
proof (cases "ws_connected s")
  case False
  with assms show ?thesis by (simp add: ws_disconnect_def)
next
  case True
  with assms(2) have "pending s1 = []"
    by (auto simp: ws_disconnect_def ws_cleanupResources_def rejectAll_def Let_def
          split: if_splits option.splits)
  then show ?thesis by (simp add: pending_wf_def)
qed

lemma pending_wf_send:
  assumes "pending_wf s"
  shows "pending_wf (snd (sendRequest rid sendErr s))"
proof (cases "ws s")
  case False
  with assms show ?thesis by (simp add: sendRequest_def)
next
  case True
  let ?p = "length (promises s)"
  from assms have old: "\<And>r q. (r, q) \<in> set (pending s) \<Longrightarrow> q < ?p \<and> promises s ! q = Unsettled"
    and dist: "distinct (map snd (pending s))"
    unfolding pending_wf_iff by blast+
  from old have fresh: "?p \<notin> snd ` set (pending s)" by fastforce
  note du = distinct_snd_update [OF dist fresh, of rid]
  show ?thesis
  proof (cases sendErr)
    case None
    have st: "snd (sendRequest rid sendErr s) =
        s\<lparr>promises := promises s @ [Unsettled], pending := AList.update rid ?p (pending s)\<rparr>"
      using True None by (simp add: sendRequest_def Let_def)
    have "q < Suc ?p \<and> (promises s @ [Unsettled]) ! q = Unsettled"
      if "(r, q) \<in> set (AList.update rid ?p (pending s))" for r q
      using in_update_alist [OF that] old [of r q] by (auto simp: nth_append)
    then show ?thesis unfolding st using du by (intro pending_wfI) simp_all
  next
    case (Some err)
    have st: "snd (sendRequest rid sendErr s) =
        s\<lparr>promises := settle ?p (RejectedError err) (promises s @ [Unsettled]),
          pending := AList.delete rid (AList.update rid ?p (pending s))\<rparr>"
      using True Some by (simp add: sendRequest_def Let_def)
    have "q < Suc ?p \<and> settle ?p (RejectedError err) (promises s @ [Unsettled]) ! q = Unsettled"
      if "(r, q) \<in> set (AList.delete rid (AList.update rid ?p (pending s)))" for r q
    proof -
      from that have "(r, q) \<in> set (AList.update rid ?p (pending s))" "r \<noteq> rid"
        by (simp_all add: in_delete_alist)
      with in_update_alist [of r q rid ?p "pending s"] have "(r, q) \<in> set (pending s)" by blast
      with old [of r q] show ?thesis by (simp add: settle_nth nth_append)
    qed
    then show ?thesis unfolding st using distinct_snd_delete [OF du, of rid]
      by (intro pending_wfI) simp_all
  qed
qed

lemma pending_wf_delete_settle:
  assumes wf: "pending_wf s" and p: "map_of (pending s) rid = Some p"
  shows "pending_wf (s\<lparr>pending := AList.delete rid (pending s), promises := settle p st (promises s)\<rparr>)"
proof (intro pending_wfI)
  from wf have old: "\<And>r q. (r, q) \<in> set (pending s) \<Longrightarrow> q < length (promises s) \<and> promises s ! q = Unsettled"
    and dist: "distinct (map snd (pending s))"
    unfolding pending_wf_iff by blast+
  from p have mem: "(rid, p) \<in> set (pending s)" by (rule map_of_SomeD)
  fix r q
  assume "(r, q) \<in> set (pending (s\<lparr>pending := AList.delete rid (pending s), promises := settle p st (promises s)\<rparr>))"
  then have rq: "(r, q) \<in> set (pending s)" and ne: "r \<noteq> rid" by (simp_all add: in_delete_alist)
  have "q \<noteq> p"
  proof
    assume "q = p"
    from dist have "inj_on snd (set (pending s))" by (simp add: distinct_map)
    from inj_onD [OF this _ rq mem] \<open>q = p\<close> have "(r, q) = (rid, p)" by simp
    with ne show False by simp
  qed
  with old [OF rq] show "q < length (promises (s\<lparr>pending := AList.delete rid (pending s), promises := settle p st (promises s)\<rparr>))
      \<and> promises (s\<lparr>pending := AList.delete rid (pending s), promises := settle p st (promises s)\<rparr>) ! q = Unsettled"
    by (simp add: settle_nth)
next
  from wf have "distinct (map snd (pending s))" unfolding pending_wf_iff by blast
  then show "distinct (map snd (pending (s\<lparr>pending := AList.delete rid (pending s), promises := settle p st (promises s)\<rparr>)))"
    by (simp add: distinct_snd_delete)
qed

lemma pending_wf_delete:
  assumes wf: "pending_wf s"
  shows "pending_wf (s\<lparr>pending := AList.delete rid (pending s)\<rparr>)"
proof (intro pending_wfI)
  fix r q
  assume "(r, q) \<in> set (pending (s\<lparr>pending := AList.delete rid (pending s)\<rparr>))"
  then have "(r, q) \<in> set (pending s)" by (simp add: in_delete_alist)
  with wf show "q < length (promises (s\<lparr>pending := AList.delete rid (pending s)\<rparr>))
      \<and> promises (s\<lparr>pending := AList.delete rid (pending s)\<rparr>) ! q = Unsettled"
    unfolding pending_wf_iff by auto
next
  from wf show "distinct (map snd (pending (s\<lparr>pending := AList.delete rid (pending s)\<rparr>)))"
    unfolding pending_wf_iff by (simp add: distinct_snd_delete)
qed

lemma pending_wf_log [simp]: "pending_wf (s\<lparr>ws_log := l\<rparr>) = pending_wf s"
  by (simp add: pending_wf_def)

lemma pending_wf_onMessage:
  assumes "pending_wf s"
  shows "pending_wf (onMessage frame s)"
  using assms pending_wf_delete_settle [OF assms] pending_wf_delete [OF assms]
  by (auto simp: onMessage_def Let_def split: option.splits json.splits)

lemma pending_wf_onClose: "pending_wf (onClose s)"
  by (simp add: pending_wf_def onClose_def rejectAll_def)

lemma ws_reachable_pending_wf: "ws_reachable s \<Longrightarrow> pending_wf s"
proof (induction rule: ws_reachable.induct)
  case ws_new
  show ?case by (rule pending_wf_new)
next
  case (ws_connect s)
  then show ?case by (simp add: pending_wf_connect)
next
  case (ws_send s rid sendErr)
  then show ?case by (simp add: pending_wf_send)
next
  case (ws_message s frame)
  then show ?case by (simp add: socket_message_def pending_wf_onMessage)
next
  case (ws_close s)
  then show ?case by (simp add: socket_close_def pending_wf_onClose)
next
  case (ws_disconnected s s1)
  then show ?case by (simp add: pending_wf_disconnect)
qed

lemma rejectAll_rejects:
  assumes "pending_wf s" "(rid, p) \<in> set (pending s)"
  shows "promises (rejectAll err s) ! p = RejectedError err"
proof -
  from assms have "p < length (promises s)" "promises s ! p = Unsettled"
    unfolding pending_wf_iff by auto
  moreover from assms(2) have "p \<in> set (map snd (pending s))" by force
  ultimately show ?thesis
    by (simp add: rejectAll_def fold_settle_nth)
qed

text \<open>
  C8. When the socket's close event fires on a listening connector, every request in the
  pending map, however many there are, has its promise rejected with the error
  \<open>WebSocket closed\<close>, and the pending map is left empty.
\<close>

theorem close_rejects_every_pending_request:
  assumes "ws_reachable s" and "closeListener s"
  shows "pending (socket_close s) = []
    \<and> (\<forall>(rid, p) \<in> set (pending s).
          promises (socket_close s) ! p = RejectedError (Error ''WebSocket closed''))"
proof -
  from assms(1) have wf: "pending_wf s" by (rule ws_reachable_pending_wf)
  then have wf': "pending_wf (s\<lparr>messageListener := False\<rparr>)" by (simp add: pending_wf_def)
  have "promises (socket_close s) ! p = RejectedError (Error ''WebSocket closed'')"
    if "(rid, p) \<in> set (pending s)" for rid p
    using rejectAll_rejects [OF wf', of rid p] that assms(2)
    by (simp add: socket_close_def onClose_def)
  moreover have "pending (socket_close s) = []"
    using assms(2) by (simp add: socket_close_def onClose_def rejectAll_def)
  ultimately show ?thesis by blast
qed

theorem close_rejects_every_pending_request_witness:
  "ws_reachable two_pending \<and> closeListener two_pending
   \<and> pending two_pending = [(''req-1'', 0), (''req-2'', 1)]
   \<and> promises two_pending = [Unsettled, Unsettled]
   \<and> pending (socket_close two_pending) = []
   \<and> promises (socket_close two_pending)
       = [RejectedError (Error ''WebSocket closed''), RejectedError (Error ''WebSocket closed'')]"
proof -
  have r: "ws_reachable two_pending"
    unfolding two_pending_def by (intro ws_send ws_connect ws_new)
  have l: "closeListener two_pending"
    by (simp add: two_pending_def sendRequest_def connect_established_def receiveLoop_def
          new_WebSocketConnector_def Let_def)
  have p: "pending two_pending = [(''req-1'', 0), (''req-2'', 1)]"
    by (simp add: two_pending_def sendRequest_def connect_established_def receiveLoop_def
          new_WebSocketConnector_def Let_def)
  have q: "promises two_pending = [Unsettled, Unsettled]"
    by (simp add: two_pending_def sendRequest_def connect_established_def receiveLoop_def
          new_WebSocketConnector_def Let_def)
  from close_rejects_every_pending_request [OF r l] p
  have e: "pending (socket_close two_pending) = []"
    and a: "promises (socket_close two_pending) ! 0 = RejectedError (Error ''WebSocket closed'')"
    and b: "promises (socket_close two_pending) ! 1 = RejectedError (Error ''WebSocket closed'')"
    by simp_all
  have len: "length (promises (socket_close two_pending)) = 2"
    using l q by (simp add: socket_close_def onClose_def rejectAll_def)
  from len a b have "promises (socket_close two_pending)
       = [RejectedError (Error ''WebSocket closed''), RejectedError (Error ''WebSocket closed'')]"
    by (simp add: list_eq_iff_nth_eq less_Suc_eq numeral_2_eq_2)
  with r l p q e show ?thesis by simp
qed


section \<open>The HTTP connector: results\<close>

lemma cleanupResources_fields [simp]:
  "has_client (cleanupResources hw c) = False"
  "connectionManager (cleanupResources hw c) = None"
  "toolsCache (cleanupResources hw c) = None"
  "connected (cleanupResources hw c) = connected c"
  "transportType (cleanupResources hw c) = transportType c"
  "preferSse (cleanupResources hw c) = preferSse c"
  by (simp_all add: cleanupResources_def Let_def split: option.splits)

lemma cleanupResources_resources:
  "resources (cleanupResources hw c) =
     resources c @ (if has_client c then [ClientClosed] else [])
       @ (case connectionManager c of None \<Rightarrow> [] | Some k \<Rightarrow> [ManagerStopped k])"
  by (simp add: cleanupResources_def Let_def split: option.splits)

lemma cleanupResources_log:
  "set (http_log c) \<subseteq> set (http_log (cleanupResources hw c))"
  by (auto simp: cleanupResources_def Let_def split: option.splits)

lemma connectWith_failure:
  assumes "attempt_error outcome = Some e"
  shows "fst (connectWith k outcome hw c) = Inl e"
    and "\<not> has_client (snd (connectWith k outcome hw c))"
    and "connectionManager (snd (connectWith k outcome hw c)) = None"
    and "toolsCache (snd (connectWith k outcome hw c)) = None"
    and "connected (snd (connectWith k outcome hw c)) = connected c"
    and "preferSse (snd (connectWith k outcome hw c)) = preferSse c"
  using assms by (cases outcome; simp add: connectWith_def)+

lemma connectWith_success:
  "fst (connectWith k Succeeds hw c) = Inr ()"
  "connected (snd (connectWith k Succeeds hw c))"
  "transportType (snd (connectWith k Succeeds hw c)) = Some k"
  by (simp_all add: connectWith_def)

text \<open>
  C3. On a connector not configured to prefer SSE (and not already connected over
  streamable HTTP), when the streamable-HTTP attempt fails, with a 404/405-class error or
  any other, and the SSE attempt succeeds, \<open>connect\<close> succeeds, the connector is
  connected and \<open>publicIdentifier.transport\<close> is \<open>sse\<close>.
\<close>

theorem connect_falls_back_to_sse:
  assumes "\<not> preferSse c"
    and "connected c \<longrightarrow> transportType c = Some Sse"
    and "attempt_error (streamable hw) = Some err"
    and "sse hw = Succeeds"
  shows "fst (connect hw c) = Inr ()
    \<and> connected (snd (connect hw c))
    \<and> map_of (publicIdentifier (snd (connect hw c))) ''transport'' = Some ''sse''"
proof (cases "connected c")
  case True
  with assms(2) show ?thesis by (simp add: connect_def publicIdentifier_def)
next
  case False
  obtain c1 where c1: "connectWithStreamableHttp hw c = (Inl err, c1)"
    using connectWith_failure(1) [OF assms(3), of StreamableHttp hw c]
    by (cases "connectWithStreamableHttp hw c") (simp add: connectWithStreamableHttp_def)
  obtain c2 where c2: "connectWith Sse Succeeds hw c1 = (Inr (), c2)"
    by (simp add: connectWith_def)
  have "connect hw c = (Inr (), snd (connectWith Sse Succeeds hw c1))"
    using False assms(1,4) c1 c2 by (simp add: connect_def connectWithSse_def)
  then show ?thesis
    by (simp add: connectWith_success publicIdentifier_def)
qed

theorem connect_falls_back_to_sse_witness:
  "\<not> preferSse (new_HttpConnector_state ''http://localhost:3000/mcp/'' False)
   \<and> attempt_error (ClientFails (StreamableHTTPError 405 ''Streamable HTTP error: Method Not Allowed''))
       = Some (StreamableHTTPError 405 ''Streamable HTTP error: Method Not Allowed'')
   \<and> fst (connect \<lparr>streamable = ClientFails (StreamableHTTPError 405 ''Streamable HTTP error: Method Not Allowed''),
                    sse = Succeeds, client_close = None, manager_stop = None\<rparr>
               (new_HttpConnector_state ''http://localhost:3000/mcp/'' False)) = Inr ()
   \<and> publicIdentifier
        (snd (connect \<lparr>streamable = ClientFails (StreamableHTTPError 405 ''Streamable HTTP error: Method Not Allowed''),
                    sse = Succeeds, client_close = None, manager_stop = None\<rparr>
               (new_HttpConnector_state ''http://localhost:3000/mcp/'' False)))
       = [(''type'', ''http''), (''url'', ''http://localhost:3000/mcp''), (''transport'', ''sse'')]"
  using connect_falls_back_to_sse
    [of "new_HttpConnector_state ''http://localhost:3000/mcp/'' False"
        "\<lparr>streamable = ClientFails (StreamableHTTPError 405 ''Streamable HTTP error: Method Not Allowed''),
          sse = Succeeds, client_close = None, manager_stop = None\<rparr>"
        "StreamableHTTPError 405 ''Streamable HTTP error: Method Not Allowed''"]
  by (simp add: new_HttpConnector_state_def connect_def connectWithStreamableHttp_def
        connectWithSse_def connectWith_def cleanupResources_def publicIdentifier_def
        strip_trailing_slash_def Let_def)

lemma connectWith_inv: "http_inv (snd (connectWith k outcome hw c))"
  by (cases outcome) (simp_all add: connectWith_def http_inv_def)

lemma connect_inv: "http_inv c \<Longrightarrow> http_inv (snd (connect hw c))"
proof -
  assume inv: "http_inv c"
  obtain r1 c1 where s1: "connectWithStreamableHttp hw c = (r1, c1)"
    by (cases "connectWithStreamableHttp hw c")
  obtain r2 c2 where s2: "connectWithSse hw c1 = (r2, c2)"
    by (cases "connectWithSse hw c1")
  have i1: "http_inv c1" using connectWith_inv [of StreamableHttp "streamable hw" hw c] s1
    by (simp add: connectWithStreamableHttp_def)
  have i2: "http_inv c2" using connectWith_inv [of Sse "sse hw" hw c1] s2
    by (simp add: connectWithSse_def)
  have i3: "http_inv (snd (connectWithSse hw c))"
    by (simp add: connectWithSse_def connectWith_inv)
  have i4: "http_inv (cleanupResources hw c')" for c'
    by (simp add: http_inv_def)
  show ?thesis
  proof (cases "connected c")
    case True
    with inv show ?thesis by (simp add: connect_def)
  next
    case nc: False
    show ?thesis
    proof (cases "preferSse c")
      case True
      with nc i3 show ?thesis by (simp add: connect_def)
    next
      case np: False
      show ?thesis
      proof (cases r1)
        case (Inr u)
        with nc np s1 i1 show ?thesis by (simp add: connect_def)
      next
        case l1: (Inl err)
        show ?thesis
        proof (cases r2)
          case (Inr u)
          with nc np s1 s2 l1 i2 show ?thesis by (simp add: connect_def)
        next
          case (Inl sseErr)
          with nc np s1 s2 l1 i4 show ?thesis by (simp add: connect_def)
        qed
      qed
    qed
  qed
qed

lemma http_reachable_inv: "http_reachable c \<Longrightarrow> http_inv c"
proof (induction rule: http_reachable.induct)
  case (http_new url forceSse)
  show ?case by (simp add: http_inv_def new_HttpConnector_state_def)
next
  case (http_connect c hw)
  then show ?case by (simp add: connect_inv)
next
  case (http_disconnect c hw)
  then show ?case by (auto simp: disconnect_def http_inv_def)
qed

lemma released_append: "released a \<Longrightarrow> released b \<Longrightarrow> released (a @ b)"
  by (simp add: released_def)

lemma connectWith_failure_released:
  assumes "attempt_error outcome = Some e" and "\<not> has_client c" and "connectionManager c = None"
  shows "\<exists>tr. resources (snd (connectWith k outcome hw c)) = resources c @ tr \<and> released tr"
  using assms
  by (cases outcome; cases k)
     (simp_all add: connectWith_def cleanupResources_resources released_def)

text \<open>
  C4 (as the code has it). When both attempts fail the error raised carries a fixed
  message, which contains neither the streamable-HTTP fallback reason nor the SSE error.
\<close>

theorem connect_error_message_counterexample:
  "fst (connect \<lparr>streamable = ClientFails (StreamableHTTPError 405 ''Streamable HTTP error: Method Not Allowed''),
                 sse = StartFails (Error ''SSE error: Non-200 status code (404)''),
                 client_close = None, manager_stop = None\<rparr>
            (new_HttpConnector_state ''http://localhost:3000/mcp'' False))
     = Inl (Error ''Could not connect to server with any available transport'')
   \<and> \<not> str_includes ''Could not connect to server with any available transport''
           (fallbackReason (StreamableHTTPError 405 ''Streamable HTTP error: Method Not Allowed''))
   \<and> \<not> str_includes ''Could not connect to server with any available transport''
           (thrown_toString (Error ''SSE error: Non-200 status code (404)''))"
  by (simp add: new_HttpConnector_state_def connect_def connectWithStreamableHttp_def
        connectWithSse_def connectWith_def cleanupResources_def error_toString_def
        strip_trailing_slash_def Let_def string_of_nat.simps digit_char_def)

text \<open>
  C4 (amended). On a connector that is not connected and does not prefer SSE, when the
  streamable-HTTP attempt and the SSE fallback both fail, \<open>connect\<close> logs both failure
  reasons at error level and raises an error with the fixed message
  \<open>Could not connect to server with any available transport\<close>, after releasing what
  the attempts acquired: no client, no connection manager and no tool cache remain, and
  every manager created was stopped and every client created was closed.
\<close>

theorem connect_both_transports_fail:
  assumes "http_reachable c" and "\<not> connected c" and "\<not> preferSse c"
    and "attempt_error (streamable hw) = Some err"
    and "attempt_error (sse hw) = Some sseErr"
  shows "fst (connect hw c) = Inl (Error ''Could not connect to server with any available transport'')
    \<and> (Err, ''  Streamable HTTP: '' @ fallbackReason err) \<in> set (http_log (snd (connect hw c)))
    \<and> (Err, ''  SSE: '' @ thrown_toString sseErr) \<in> set (http_log (snd (connect hw c)))
    \<and> \<not> has_client (snd (connect hw c))
    \<and> connectionManager (snd (connect hw c)) = None
    \<and> toolsCache (snd (connect hw c)) = None
    \<and> \<not> connected (snd (connect hw c))
    \<and> (\<exists>tr. resources (snd (connect hw c)) = resources c @ tr \<and> released tr)"
proof -
  from http_reachable_inv [OF assms(1)] assms(2)
  have clean: "\<not> has_client c" "connectionManager c = None" by (simp_all add: http_inv_def)
  obtain c1 where c1: "connectWithStreamableHttp hw c = (Inl err, c1)"
    using connectWith_failure(1) [OF assms(4), of StreamableHttp hw c]
    by (cases "connectWithStreamableHttp hw c") (simp add: connectWithStreamableHttp_def)
  then have c1': "c1 = snd (connectWith StreamableHttp (streamable hw) hw c)"
    by (simp add: connectWithStreamableHttp_def)
  obtain c2 where c2: "connectWithSse hw c1 = (Inl sseErr, c2)"
    using connectWith_failure(1) [OF assms(5), of Sse hw c1]
    by (cases "connectWithSse hw c1") (simp add: connectWithSse_def)
  then have c2': "c2 = snd (connectWith Sse (sse hw) hw c1)"
    by (simp add: connectWithSse_def)
  let ?c3 = "c2\<lparr>http_log := http_log c2 @
               [(Err, ''Failed to connect with both transports:''),
                (Err, ''  Streamable HTTP: '' @ fallbackReason err),
                (Err, ''  SSE: '' @ thrown_toString sseErr)]\<rparr>"
  have res: "connect hw c =
      (Inl (Error ''Could not connect to server with any available transport''), cleanupResources hw ?c3)"
    using assms(2,3) c1 c2 by (simp add: connect_def)
  have p1: "\<not> has_client c1" "connectionManager c1 = None" "\<not> connected c1"
    unfolding c1' using connectWith_failure(2,3,5) [OF assms(4)] assms(2) by simp_all
  have p2: "\<not> has_client c2" "connectionManager c2 = None" "\<not> connected c2"
    unfolding c2' using connectWith_failure(2,3,5) [OF assms(5)] p1(3) by simp_all
  obtain t1 where t1: "resources c1 = resources c @ t1" "released t1"
    unfolding c1' using connectWith_failure_released [OF assms(4) clean] by blast
  obtain t2 where t2: "resources c2 = resources c1 @ t2" "released t2"
    unfolding c2' using connectWith_failure_released [OF assms(5) p1(1,2)] by blast
  have r3: "resources (cleanupResources hw ?c3) = resources c @ (t1 @ t2)"
    using p2 t1(1) t2(1) by (simp add: cleanupResources_resources)
  have rel: "\<exists>tr. resources (cleanupResources hw ?c3) = resources c @ tr \<and> released tr"
    using r3 released_append [OF t1(2) t2(2)] by blast
  have l1: "(Err, ''  Streamable HTTP: '' @ fallbackReason err) \<in> set (http_log (cleanupResources hw ?c3))"
    by (rule subsetD [OF cleanupResources_log]) simp
  have l2: "(Err, ''  SSE: '' @ thrown_toString sseErr) \<in> set (http_log (cleanupResources hw ?c3))"
    by (rule subsetD [OF cleanupResources_log]) simp
  from res l1 l2 rel p2(3) show ?thesis by simp
qed

theorem connect_both_transports_fail_witness:
  "http_reachable (new_HttpConnector_state ''http://localhost:3000/mcp'' False)
   \<and> connect \<lparr>streamable = ClientFails (StreamableHTTPError 405 ''Streamable HTTP error: Method Not Allowed''),
               sse = StartFails (Error ''SSE error: Non-200 status code (404)''),
               client_close = None, manager_stop = None\<rparr>
         (new_HttpConnector_state ''http://localhost:3000/mcp'' False)
     = (Inl (Error ''Could not connect to server with any available transport''),
        \<lparr>baseUrl = ''http://localhost:3000/mcp'', preferSse = False, connected = False,
         transportType = None, has_client = False, connectionManager = None, toolsCache = None,
         resources = [ManagerCreated StreamableHttp, ClientCreated, ClientClosed,
                      ManagerStopped StreamableHttp, ManagerCreated Sse, ManagerStopped Sse],
         http_log = [(Err, ''Failed to connect with both transports:''),
                     (Err, ''  Streamable HTTP: Server returned 405 - server likely doesn't support streamable HTTP''),
                     (Err, ''  SSE: Error: SSE error: Non-200 status code (404)'')]\<rparr>)"
  using connect_both_transports_fail
    [of "new_HttpConnector_state ''http://localhost:3000/mcp'' False"
        "\<lparr>streamable = ClientFails (StreamableHTTPError 405 ''Streamable HTTP error: Method Not Allowed''),
          sse = StartFails (Error ''SSE error: Non-200 status code (404)''),
          client_close = None, manager_stop = None\<rparr>"
        "StreamableHTTPError 405 ''Streamable HTTP error: Method Not Allowed''"
        "Error ''SSE error: Non-200 status code (404)''"]
    http_new [of "''http://localhost:3000/mcp''" False]
  by (simp add: new_HttpConnector_state_def connect_def connectWithStreamableHttp_def
        connectWithSse_def connectWith_def cleanupResources_def error_toString_def
        strip_trailing_slash_def Let_def string_of_nat.simps digit_char_def)

section \<open>The server manager: results\<close>

text \<open>
  C1 (the code at the failing input). Connecting to a configured server whose tools are
  not cached creates the session and activates the server, but fetches nothing: the
  test before the fetch is \<open>if (this.manager.serverTools[serverName])\<close>, so tools are
  fetched only when they are already cached. The status reports 0 tools although the
  server offers two.
\<close>

theorem connect_call_skips_fetch_when_not_cached:
  "fst (connect_call echo_world echo_manager ''x'')
     = ''Connected to MCP server '' @ quoted ''x'' @ ''. 0 tools are now available.''
   \<and> serverTools (snd (connect_call echo_world echo_manager ''x'')) = []
   \<and> createToolsFromConnectors echo_world
        (StdioConnector (Some (JStr ''echo'')) (Some (JArr [JStr ''hi''])) None)
       = Inr [ServerTool ''echo'', ServerTool ''add'']"
  by (simp add: connect_call_def echo_world_def echo_manager_def new_ServerManager_def
        getServerNames_def servers_of_def getSession_def createSession_def
        createConnectorFromObject_def has_key_def get_prop_def cached_tools_def Let_def
        string_of_nat.simps digit_char_def)

text \<open>
  C5 (the code at the failing input). After that call the active server is \<open>x\<close> and
  \<open>x\<close> is not a key of \<open>serverTools\<close>.
\<close>

theorem connect_call_activates_without_cache_entry:
  "activeServer (snd (connect_call echo_world echo_manager ''x'')) = Some ''x''
   \<and> map_of (serverTools (snd (connect_call echo_world echo_manager ''x''))) ''x'' = None"
  by (simp add: connect_call_def echo_world_def echo_manager_def new_ServerManager_def
        getServerNames_def servers_of_def getSession_def createSession_def
        createConnectorFromObject_def has_key_def get_prop_def cached_tools_def Let_def)






end
